theory Spec2Isabelle
  imports Main "HOL-Library.Word"
begin

section \<open>The logging facade of the runtime environment handle\<close>

text \<open>
  The file \<^verbatim>\<open>log.c\<close> holds two static workers (\<^verbatim>\<open>ten_env_log_internal\<close> and
  \<^verbatim>\<open>ten_env_log_with_size_formatted_internal\<close>) and five public entry points that
  call them. Everything a call does is an effect on the outside world: it reads fields
  of the handle, writes to the file descriptor of the diagnostic stream, hands a record
  to the global sink, or ends the process. The model therefore threads a trace of
  events through every function and returns, beside the trace, how the call ended.
\<close>

subsection \<open>C values\<close>

text \<open>
  A \<^verbatim>\<open>const char *\<close> that the facade only forwards, or scans with \<^verbatim>\<open>strlen\<close>, is
  either the null pointer or a pointer to an object of bytes; \<open>Ptr bs\<close> carries the
  bytes from the pointer to the end of that object, terminator included when there is
  one.
\<close>

datatype cptr = Null | Ptr string

text \<open>
  \<^verbatim>\<open>strlen\<close> of the C library: the number of bytes before the first zero byte. On the
  null pointer, and on an object that holds no zero byte, the scan leaves the object:
  the behaviour is undefined, which is the value \<open>None\<close>.
\<close>

definition strlen :: "cptr \<Rightarrow> nat option" where
  "strlen p =
     (case p of
        Null \<Rightarrow> None
      | Ptr bs \<Rightarrow>
          if CHR 0x00 \<in> set bs
          then Some (length (takeWhile (\<lambda>c. c \<noteq> CHR 0x00) bs))
          else None)"

text \<open>
  The message, the format string and the instance name are always read as C strings;
  they are modelled by their contents (the bytes before the terminator). Values of
  \<^verbatim>\<open>size_t\<close> (line numbers, lengths) are natural numbers: the facade does no
  arithmetic on them. A \<^verbatim>\<open>ten_value_t *\<close> is an opaque address, and a
  \<^verbatim>\<open>TEN_LOG_LEVEL\<close> is the integer value of the enumerator.
\<close>

type_synonym size_t = nat
type_synonym ten_value_ptr = nat
type_synonym TEN_LOG_LEVEL = nat
type_synonym thread_id = nat

subsection \<open>Format expansion\<close>

text \<open>The arguments of a variadic call, as the \<^verbatim>\<open>va_list\<close> presents them.\<close>

datatype fmt_arg = Arg_str string | Arg_int "32 word"

fun dec_nat :: "nat \<Rightarrow> string" where
  "dec_nat n =
     (if n < 10 then [char_of (48 + n)]
      else dec_nat (n div 10) @ [char_of (48 + n mod 10)])"

declare dec_nat.simps [simp del]

definition dec_int :: "int \<Rightarrow> string" where
  "dec_int i = (if i < 0 then CHR ''-'' # dec_nat (nat (- i)) else dec_nat (nat i))"

text \<open>
  Modelled from the spec: the string library (\<^verbatim>\<open>ten_utils/lib/string.h\<close>) is not part
  of \<^verbatim>\<open>log.c\<close>. The spec asks of it that the body is "produced by expanding a
  format string against a variadic argument list into a dynamically-sized buffer (must
  never truncate regardless of expansion length; grows as needed)". \<open>c_format\<close> is that
  expansion for the conversions \<^verbatim>\<open>%s\<close>, \<^verbatim>\<open>%d\<close> and \<^verbatim>\<open>%%\<close> of the C library; the
  result is the whole expansion, of any length. A conversion outside this fragment, a
  conversion whose argument is missing or of the other kind, and a lone \<^verbatim>\<open>%\<close> at the
  end give \<open>None\<close>: the call is undefined in C or not covered here.
\<close>

fun c_format :: "string \<Rightarrow> fmt_arg list \<Rightarrow> string option" where
  "c_format [] ap = Some []"
| "c_format [c] ap = (if c = CHR ''%'' then None else Some [c])"
| "c_format (c # d # fmt) ap =
     (if c \<noteq> CHR ''%'' then map_option ((#) c) (c_format (d # fmt) ap)
      else if d = CHR ''%'' then map_option ((#) CHR ''%'') (c_format fmt ap)
      else if d = CHR ''s'' then
        (case ap of
           Arg_str s # ap' \<Rightarrow> map_option ((@) s) (c_format fmt ap')
         | _ \<Rightarrow> None)
      else if d = CHR ''d'' then
        (case ap of
           Arg_int i # ap' \<Rightarrow> map_option ((@) (dec_int (sint i))) (c_format fmt ap')
         | _ \<Rightarrow> None)
      else None)"

text \<open>
  Modelled from the spec: \<^verbatim>\<open>ten_string_t\<close> is the growable text buffer; a value of it
  is modelled by its contents. \<^verbatim>\<open>ten_string_init_formatted\<close> sets the buffer to the
  expansion, \<^verbatim>\<open>ten_string_append_from_va_list\<close> appends the expansion to it,
  \<^verbatim>\<open>ten_string_get_raw_str\<close> is the pointer to its contents and \<^verbatim>\<open>ten_string_len\<close>
  the length it keeps.
\<close>

definition ten_string_init_formatted :: "string \<Rightarrow> fmt_arg list \<Rightarrow> string option" where
  "ten_string_init_formatted fmt ap = c_format fmt ap"

definition ten_string_append_from_va_list ::
  "string \<Rightarrow> string \<Rightarrow> fmt_arg list \<Rightarrow> string option" where
  "ten_string_append_from_va_list self fmt ap = map_option ((@) self) (c_format fmt ap)"

definition ten_string_get_raw_str :: "string \<Rightarrow> string" where
  "ten_string_get_raw_str self = self"

definition ten_string_len :: "string \<Rightarrow> size_t" where
  "ten_string_len self = length self"

subsection \<open>The handle, the events and the outcome of a call\<close>

text \<open>
  Modelled from the spec: \<^verbatim>\<open>ten_env_t\<close> is declared outside \<^verbatim>\<open>log.c\<close>. The
  spec's data model gives the handle an attached instance name, an owning-thread
  descriptor and a closed flag.
\<close>

record ten_env =
  attached_instance_name :: string
  owner_thread :: thread_id
  is_closed :: bool

datatype env_field = Field_closed | Field_owner_thread | Field_instance_name

text \<open>The arguments of the two forms of the sink's ingestion point.\<close>

record log_args =
  lg_level :: TEN_LOG_LEVEL
  lg_func_name :: cptr
  lg_file_name :: cptr
  lg_line_no :: size_t
  lg_msg :: string
  lg_category :: cptr
  lg_fields :: ten_value_ptr

record log_size_args =
  sz_level :: TEN_LOG_LEVEL
  sz_func_name :: cptr
  sz_func_name_len :: size_t
  sz_file_name :: cptr
  sz_file_name_len :: size_t
  sz_line_no :: size_t
  sz_msg :: string
  sz_msg_len :: size_t
  sz_category :: cptr
  sz_category_len :: size_t
  sz_fields :: ten_value_ptr

datatype event =
    Read_field env_field
  | Dprintf nat string
  | Log_log log_args
  | Log_log_with_size log_size_args

type_synonym trace = "event list"

text \<open>
  Modelled from the spec: the macro \<^verbatim>\<open>TEN_ASSERT\<close> is defined outside \<^verbatim>\<open>log.c\<close>;
  the spec makes its failure fatal ("process terminates via assertion"). A call
  therefore returns to its caller (\<open>Returned\<close>), or ends the process in a failed
  assertion (\<open>Aborted\<close>), or has no defined behaviour (\<open>Undefined\<close>).
\<close>

datatype outcome = Returned | Aborted | Undefined

definition STDERR_FILENO :: nat where
  "STDERR_FILENO = 2"

subsection \<open>The collaborators of the facade\<close>

text \<open>
  Modelled from the spec: \<^verbatim>\<open>ten_env_is_closed\<close> is defined outside \<^verbatim>\<open>log.c\<close>;
  the spec gives \<^verbatim>\<open>is_closed(handle) -> bool\<close>, a read of the closed flag, and makes
  a null handle a fatal precondition violation (the result \<open>None\<close>).
\<close>

definition ten_env_is_closed :: "ten_env option \<Rightarrow> trace \<Rightarrow> bool option \<times> trace" where
  "ten_env_is_closed self tr =
     (case self of
        None \<Rightarrow> (None, tr)
      | Some env \<Rightarrow> (Some (is_closed env), tr @ [Read_field Field_closed]))"

text \<open>
  Modelled from the spec: \<^verbatim>\<open>ten_env_check_integrity\<close> is defined outside
  \<^verbatim>\<open>log.c\<close>. The spec's contract: "given a handle and a boolean enforce flag, assert
  that the calling thread equals the handle's owning thread, unless enforce is false".
  The owning-thread descriptor is read only when the check is enforced; \<open>cur\<close> is the
  calling thread.
\<close>

definition ten_env_check_integrity ::
  "ten_env \<Rightarrow> bool \<Rightarrow> thread_id \<Rightarrow> trace \<Rightarrow> bool \<times> trace" where
  "ten_env_check_integrity self check_thread cur tr =
     (if check_thread
      then (owner_thread self = cur, tr @ [Read_field Field_owner_thread])
      else (True, tr))"

text \<open>
  Modelled from the spec: \<^verbatim>\<open>ten_env_get_attached_instance_name\<close> is defined outside
  \<^verbatim>\<open>log.c\<close>. The spec gives \<^verbatim>\<open>resolve_instance_name(handle,
  enforceThreadCheck) -> text\<close>, which "must itself respect the enforce flag passed down
  from the entry point": it asserts the integrity of the handle under the same flag and
  then reads the name. \<open>None\<close> is the failed assertion.
\<close>

definition ten_env_get_attached_instance_name ::
  "ten_env \<Rightarrow> bool \<Rightarrow> thread_id \<Rightarrow> trace \<Rightarrow> string option \<times> trace" where
  "ten_env_get_attached_instance_name self check_thread cur tr =
     (case ten_env_check_integrity self check_thread cur tr of
        (ok, tr1) \<Rightarrow>
          if ok then (Some (attached_instance_name self), tr1 @ [Read_field Field_instance_name])
          else (None, tr1))"

text \<open>
  Modelled from the spec: the global sink is external; \<^verbatim>\<open>submit_record\<close> is its single
  ingestion point, in a plain and a length-qualified form. A submission is recorded
  with the arguments of the call, as the facade passed them.
\<close>

definition ten_log_log ::
  "TEN_LOG_LEVEL \<Rightarrow> cptr \<Rightarrow> cptr \<Rightarrow> size_t \<Rightarrow> string \<Rightarrow> cptr \<Rightarrow> ten_value_ptr \<Rightarrow>
   trace \<Rightarrow> trace" where
  "ten_log_log level func_name file_name line_no msg category flds tr =
     tr @ [Log_log \<lparr>lg_level = level, lg_func_name = func_name, lg_file_name = file_name,
                    lg_line_no = line_no, lg_msg = msg, lg_category = category,
                    lg_fields = flds\<rparr>]"

definition ten_log_log_with_size ::
  "TEN_LOG_LEVEL \<Rightarrow> cptr \<Rightarrow> size_t \<Rightarrow> cptr \<Rightarrow> size_t \<Rightarrow> size_t \<Rightarrow> string \<Rightarrow> size_t \<Rightarrow>
   cptr \<Rightarrow> size_t \<Rightarrow> ten_value_ptr \<Rightarrow> trace \<Rightarrow> trace" where
  "ten_log_log_with_size level func_name func_name_len file_name file_name_len line_no
       msg msg_len category category_len flds tr =
     tr @ [Log_log_with_size
             \<lparr>sz_level = level, sz_func_name = func_name, sz_func_name_len = func_name_len,
              sz_file_name = file_name, sz_file_name_len = file_name_len,
              sz_line_no = line_no, sz_msg = msg, sz_msg_len = msg_len,
              sz_category = category, sz_category_len = category_len,
              sz_fields = flds\<rparr>]"

subsection \<open>log.c\<close>

text \<open>
  \<^verbatim>\<open>TEN_ASSERT(self && ten_env_check_integrity(self, check_thread), ...)\<close>: the
  conjunction does not evaluate the check on a null handle, and a failed assertion is
  the outcome \<open>Aborted\<close>. The name is resolved, the message composed and the record
  submitted in the order of the statements of the source.
\<close>

definition ten_env_log_internal ::
  "ten_env option \<Rightarrow> TEN_LOG_LEVEL \<Rightarrow> cptr \<Rightarrow> cptr \<Rightarrow> size_t \<Rightarrow> string \<Rightarrow> cptr \<Rightarrow>
   ten_value_ptr \<Rightarrow> bool \<Rightarrow> thread_id \<Rightarrow> trace \<Rightarrow> outcome \<times> trace" where
  "ten_env_log_internal self level func_name file_name line_no msg category flds
       check_thread cur tr =
     (case self of
        None \<Rightarrow> (Aborted, tr)
      | Some env \<Rightarrow>
          (case ten_env_check_integrity env check_thread cur tr of
             (ok, tr1) \<Rightarrow>
               if \<not> ok then (Aborted, tr1)
               else
                 (case ten_env_get_attached_instance_name env check_thread cur tr1 of
                    (None, tr2) \<Rightarrow> (Aborted, tr2)
                  | (Some name, tr2) \<Rightarrow>
                      (case ten_string_init_formatted ''[%s] %s'' [Arg_str name, Arg_str msg] of
                         None \<Rightarrow> (Undefined, tr2)
                       | Some final_msg \<Rightarrow>
                           (Returned,
                            ten_log_log level func_name file_name line_no
                              (ten_string_get_raw_str final_msg) category flds tr2)))))"

definition ten_env_log_without_check_thread ::
  "ten_env option \<Rightarrow> TEN_LOG_LEVEL \<Rightarrow> cptr \<Rightarrow> cptr \<Rightarrow> size_t \<Rightarrow> string \<Rightarrow> cptr \<Rightarrow>
   ten_value_ptr \<Rightarrow> thread_id \<Rightarrow> trace \<Rightarrow> outcome \<times> trace" where
  "ten_env_log_without_check_thread self level func_name file_name line_no msg category
       flds cur tr =
     ten_env_log_internal self level func_name file_name line_no msg category flds
       False cur tr"

text \<open>
  The diagnostic write of the closed path is compiled only where \<^verbatim>\<open>OS_WINDOWS\<close> is
  not defined; \<open>os_windows\<close> says which build is meant.
\<close>

definition ten_env_log ::
  "bool \<Rightarrow> ten_env option \<Rightarrow> TEN_LOG_LEVEL \<Rightarrow> cptr \<Rightarrow> cptr \<Rightarrow> size_t \<Rightarrow> string \<Rightarrow> cptr \<Rightarrow>
   ten_value_ptr \<Rightarrow> thread_id \<Rightarrow> trace \<Rightarrow> outcome \<times> trace" where
  "ten_env_log os_windows self level func_name file_name line_no msg category flds
       cur tr =
     (case ten_env_is_closed self tr of
        (None, tr1) \<Rightarrow> (Aborted, tr1)
      | (Some True, tr1) \<Rightarrow>
          if \<not> os_windows then
            (case c_format (''ten_env_log failed due to closed: %s'' @ [CHR 0x0A])
                    [Arg_str msg] of
               None \<Rightarrow> (Undefined, tr1)
             | Some text \<Rightarrow> (Returned, tr1 @ [Dprintf STDERR_FILENO text]))
          else (Returned, tr1)
      | (Some False, tr1) \<Rightarrow>
          ten_env_log_internal self level func_name file_name line_no msg category flds
            True cur tr1)"

definition ten_env_log_with_size_formatted_internal ::
  "ten_env option \<Rightarrow> TEN_LOG_LEVEL \<Rightarrow> cptr \<Rightarrow> size_t \<Rightarrow> cptr \<Rightarrow> size_t \<Rightarrow> size_t \<Rightarrow> bool \<Rightarrow>
   cptr \<Rightarrow> size_t \<Rightarrow> ten_value_ptr \<Rightarrow> string \<Rightarrow> fmt_arg list \<Rightarrow> thread_id \<Rightarrow> trace \<Rightarrow>
   outcome \<times> trace" where
  "ten_env_log_with_size_formatted_internal self level func_name func_name_len file_name
       file_name_len line_no check_thread category category_len flds fmt ap cur tr =
     (case self of
        None \<Rightarrow> (Aborted, tr)
      | Some env \<Rightarrow>
          (case ten_env_check_integrity env check_thread cur tr of
             (ok, tr1) \<Rightarrow>
               if \<not> ok then (Aborted, tr1)
               else
                 (case ten_env_get_attached_instance_name env check_thread cur tr1 of
                    (None, tr2) \<Rightarrow> (Aborted, tr2)
                  | (Some name, tr2) \<Rightarrow>
                      (case ten_string_init_formatted ''[%s] '' [Arg_str name] of
                         None \<Rightarrow> (Undefined, tr2)
                       | Some final_msg0 \<Rightarrow>
                           (case ten_string_append_from_va_list final_msg0 fmt ap of
                              None \<Rightarrow> (Undefined, tr2)
                            | Some final_msg \<Rightarrow>
                                (Returned,
                                 ten_log_log_with_size level func_name func_name_len
                                   file_name file_name_len line_no
                                   (ten_string_get_raw_str final_msg)
                                   (ten_string_len final_msg) category category_len flds
                                   tr2))))))"

definition ten_env_log_with_size_formatted_without_check_thread ::
  "ten_env option \<Rightarrow> TEN_LOG_LEVEL \<Rightarrow> cptr \<Rightarrow> size_t \<Rightarrow> cptr \<Rightarrow> size_t \<Rightarrow> size_t \<Rightarrow>
   cptr \<Rightarrow> size_t \<Rightarrow> ten_value_ptr \<Rightarrow> string \<Rightarrow> fmt_arg list \<Rightarrow> thread_id \<Rightarrow> trace \<Rightarrow>
   outcome \<times> trace" where
  "ten_env_log_with_size_formatted_without_check_thread self level func_name func_name_len
       file_name file_name_len line_no category category_len flds fmt ap cur tr =
     ten_env_log_with_size_formatted_internal self level func_name func_name_len file_name
       file_name_len line_no False category category_len flds fmt ap cur tr"

definition ten_env_log_with_size_formatted ::
  "ten_env option \<Rightarrow> TEN_LOG_LEVEL \<Rightarrow> cptr \<Rightarrow> size_t \<Rightarrow> cptr \<Rightarrow> size_t \<Rightarrow> size_t \<Rightarrow>
   cptr \<Rightarrow> size_t \<Rightarrow> ten_value_ptr \<Rightarrow> string \<Rightarrow> fmt_arg list \<Rightarrow> thread_id \<Rightarrow> trace \<Rightarrow>
   outcome \<times> trace" where
  "ten_env_log_with_size_formatted self level func_name func_name_len file_name
       file_name_len line_no category category_len flds fmt ap cur tr =
     ten_env_log_with_size_formatted_internal self level func_name func_name_len file_name
       file_name_len line_no True category category_len flds fmt ap cur tr"

text \<open>
  The two \<^verbatim>\<open>strlen\<close> calls are arguments of the call of the worker: they are
  evaluated before the worker's assertion runs.
\<close>

definition ten_env_log_formatted ::
  "ten_env option \<Rightarrow> TEN_LOG_LEVEL \<Rightarrow> cptr \<Rightarrow> cptr \<Rightarrow> size_t \<Rightarrow> cptr \<Rightarrow> size_t \<Rightarrow>
   ten_value_ptr \<Rightarrow> string \<Rightarrow> fmt_arg list \<Rightarrow> thread_id \<Rightarrow> trace \<Rightarrow> outcome \<times> trace" where
  "ten_env_log_formatted self level func_name file_name line_no category category_len
       flds fmt ap cur tr =
     (case strlen func_name of
        None \<Rightarrow> (Undefined, tr)
      | Some func_name_len \<Rightarrow>
          (case strlen file_name of
             None \<Rightarrow> (Undefined, tr)
           | Some file_name_len \<Rightarrow>
               ten_env_log_with_size_formatted_internal self level func_name func_name_len
                 file_name file_name_len line_no True category category_len flds fmt ap
                 cur tr))"

subsection \<open>Reading a trace\<close>

fun is_read :: "event \<Rightarrow> bool" where
  "is_read (Read_field f) = True"
| "is_read e = False"

fun is_submission :: "event \<Rightarrow> bool" where
  "is_submission (Log_log r) = True"
| "is_submission (Log_log_with_size r) = True"
| "is_submission e = False"

fun is_diagnostic :: "event \<Rightarrow> bool" where
  "is_diagnostic (Dprintf fd text) = True"
| "is_diagnostic e = False"

definition reads :: "trace \<Rightarrow> trace" where
  "reads tr = filter is_read tr"

definition submissions :: "trace \<Rightarrow> trace" where
  "submissions tr = filter is_submission tr"

definition diagnostics :: "trace \<Rightarrow> trace" where
  "diagnostics tr = filter is_diagnostic tr"

text \<open>
  What a submission carries for the category (the pointer and, in the length-qualified
  form, its length), for the fields and for the message; and which of the two forms of
  the sink's ingestion point it is. The length-qualified form is well formed when the
  length it passes is the length of the message.
\<close>

fun submitted_category :: "event \<Rightarrow> (cptr \<times> size_t option) option" where
  "submitted_category (Log_log r) = Some (lg_category r, None)"
| "submitted_category (Log_log_with_size r) = Some (sz_category r, Some (sz_category_len r))"
| "submitted_category e = None"

fun submitted_fields :: "event \<Rightarrow> ten_value_ptr option" where
  "submitted_fields (Log_log r) = Some (lg_fields r)"
| "submitted_fields (Log_log_with_size r) = Some (sz_fields r)"
| "submitted_fields e = None"

fun is_plain_form :: "event \<Rightarrow> bool" where
  "is_plain_form (Log_log r) = True"
| "is_plain_form e = False"

fun is_sized_form :: "event \<Rightarrow> bool" where
  "is_sized_form (Log_log_with_size r) = (sz_msg_len r = length (sz_msg r))"
| "is_sized_form e = False"

fun submitted_message :: "event \<Rightarrow> (string \<times> size_t option) option" where
  "submitted_message (Log_log r) = Some (lg_msg r, None)"
| "submitted_message (Log_log_with_size r) = Some (sz_msg r, Some (sz_msg_len r))"
| "submitted_message e = None"

subsection \<open>The expansions the facade itself asks for\<close>

lemma c_format_name_msg:
  "c_format ''[%s] %s'' [Arg_str n, Arg_str m] = Some (''['' @ n @ ''] '' @ m)"
  by simp

lemma c_format_name:
  "c_format ''[%s] '' [Arg_str n] = Some (''['' @ n @ ''] '')"
  by simp

lemma c_format_closed_notice:
  "c_format (''ten_env_log failed due to closed: %s'' @ [CHR 0x0A]) [Arg_str m] =
     Some (''ten_env_log failed due to closed: '' @ m @ [CHR 0x0A])"
  by simp

lemma c_format_whole_string: "c_format ''%s'' [Arg_str s] = Some s"
  by simp

lemma strlen_None_iff:
  "strlen p = None \<longleftrightarrow> p = Null \<or> (\<exists>bs. p = Ptr bs \<and> CHR 0x00 \<notin> set bs)"
  by (cases p) (simp_all add: strlen_def)

subsection \<open>The workers, path by path\<close>

lemma log_internal_null:
  "ten_env_log_internal None level func_name file_name line_no msg category flds
     check_thread cur tr = (Aborted, tr)"
  by (simp add: ten_env_log_internal_def)

lemma log_internal_unchecked:
  "ten_env_log_internal (Some env) level func_name file_name line_no msg category flds
     False cur tr =
   (Returned,
    tr @ [Read_field Field_instance_name,
          Log_log \<lparr>lg_level = level, lg_func_name = func_name, lg_file_name = file_name,
                   lg_line_no = line_no,
                   lg_msg = ''['' @ attached_instance_name env @ ''] '' @ msg,
                   lg_category = category, lg_fields = flds\<rparr>])"
  by (simp add: ten_env_log_internal_def ten_env_check_integrity_def
      ten_env_get_attached_instance_name_def ten_string_init_formatted_def
      ten_string_get_raw_str_def ten_log_log_def)

lemma log_internal_owner:
  "owner_thread env = cur \<Longrightarrow>
   ten_env_log_internal (Some env) level func_name file_name line_no msg category flds
     True cur tr =
   (Returned,
    tr @ [Read_field Field_owner_thread, Read_field Field_owner_thread,
          Read_field Field_instance_name,
          Log_log \<lparr>lg_level = level, lg_func_name = func_name, lg_file_name = file_name,
                   lg_line_no = line_no,
                   lg_msg = ''['' @ attached_instance_name env @ ''] '' @ msg,
                   lg_category = category, lg_fields = flds\<rparr>])"
  by (simp add: ten_env_log_internal_def ten_env_check_integrity_def
      ten_env_get_attached_instance_name_def ten_string_init_formatted_def
      ten_string_get_raw_str_def ten_log_log_def)

lemma log_internal_foreign:
  "owner_thread env \<noteq> cur \<Longrightarrow>
   ten_env_log_internal (Some env) level func_name file_name line_no msg category flds
     True cur tr =
   (Aborted, tr @ [Read_field Field_owner_thread])"
  by (simp add: ten_env_log_internal_def ten_env_check_integrity_def)

lemma sized_internal_null:
  "ten_env_log_with_size_formatted_internal None level func_name func_name_len file_name
     file_name_len line_no check_thread category category_len flds fmt ap cur tr =
   (Aborted, tr)"
  by (simp add: ten_env_log_with_size_formatted_internal_def)

lemma sized_internal_unchecked:
  "c_format fmt ap = Some body \<Longrightarrow>
   ten_env_log_with_size_formatted_internal (Some env) level func_name func_name_len
     file_name file_name_len line_no False category category_len flds fmt ap cur tr =
   (Returned,
    tr @ [Read_field Field_instance_name,
          Log_log_with_size
            \<lparr>sz_level = level, sz_func_name = func_name, sz_func_name_len = func_name_len,
             sz_file_name = file_name, sz_file_name_len = file_name_len,
             sz_line_no = line_no,
             sz_msg = ''['' @ attached_instance_name env @ ''] '' @ body,
             sz_msg_len = length (''['' @ attached_instance_name env @ ''] '' @ body),
             sz_category = category, sz_category_len = category_len,
             sz_fields = flds\<rparr>])"
  by (simp add: ten_env_log_with_size_formatted_internal_def ten_env_check_integrity_def
      ten_env_get_attached_instance_name_def ten_string_init_formatted_def
      ten_string_append_from_va_list_def ten_string_get_raw_str_def ten_string_len_def
      ten_log_log_with_size_def)

lemma sized_internal_unchecked_undefined:
  "c_format fmt ap = None \<Longrightarrow>
   ten_env_log_with_size_formatted_internal (Some env) level func_name func_name_len
     file_name file_name_len line_no False category category_len flds fmt ap cur tr =
   (Undefined, tr @ [Read_field Field_instance_name])"
  by (simp add: ten_env_log_with_size_formatted_internal_def ten_env_check_integrity_def
      ten_env_get_attached_instance_name_def ten_string_init_formatted_def
      ten_string_append_from_va_list_def)

lemma sized_internal_owner:
  "owner_thread env = cur \<Longrightarrow> c_format fmt ap = Some body \<Longrightarrow>
   ten_env_log_with_size_formatted_internal (Some env) level func_name func_name_len
     file_name file_name_len line_no True category category_len flds fmt ap cur tr =
   (Returned,
    tr @ [Read_field Field_owner_thread, Read_field Field_owner_thread,
          Read_field Field_instance_name,
          Log_log_with_size
            \<lparr>sz_level = level, sz_func_name = func_name, sz_func_name_len = func_name_len,
             sz_file_name = file_name, sz_file_name_len = file_name_len,
             sz_line_no = line_no,
             sz_msg = ''['' @ attached_instance_name env @ ''] '' @ body,
             sz_msg_len = length (''['' @ attached_instance_name env @ ''] '' @ body),
             sz_category = category, sz_category_len = category_len,
             sz_fields = flds\<rparr>])"
  by (simp add: ten_env_log_with_size_formatted_internal_def ten_env_check_integrity_def
      ten_env_get_attached_instance_name_def ten_string_init_formatted_def
      ten_string_append_from_va_list_def ten_string_get_raw_str_def ten_string_len_def
      ten_log_log_with_size_def)

lemma sized_internal_owner_undefined:
  "owner_thread env = cur \<Longrightarrow> c_format fmt ap = None \<Longrightarrow>
   ten_env_log_with_size_formatted_internal (Some env) level func_name func_name_len
     file_name file_name_len line_no True category category_len flds fmt ap cur tr =
   (Undefined,
    tr @ [Read_field Field_owner_thread, Read_field Field_owner_thread,
          Read_field Field_instance_name])"
  by (simp add: ten_env_log_with_size_formatted_internal_def ten_env_check_integrity_def
      ten_env_get_attached_instance_name_def ten_string_init_formatted_def
      ten_string_append_from_va_list_def)

lemma sized_internal_foreign:
  "owner_thread env \<noteq> cur \<Longrightarrow>
   ten_env_log_with_size_formatted_internal (Some env) level func_name func_name_len
     file_name file_name_len line_no True category category_len flds fmt ap cur tr =
   (Aborted, tr @ [Read_field Field_owner_thread])"
  by (simp add: ten_env_log_with_size_formatted_internal_def ten_env_check_integrity_def)

lemma log_closed:
  "is_closed env \<Longrightarrow>
   ten_env_log os_windows (Some env) level func_name file_name line_no msg category flds
     cur tr =
   (Returned,
    tr @ Read_field Field_closed #
      (if os_windows then []
       else [Dprintf STDERR_FILENO
               (''ten_env_log failed due to closed: '' @ msg @ [CHR 0x0A])]))"
  by (simp add: ten_env_log_def ten_env_is_closed_def)

lemma log_open:
  "\<not> is_closed env \<Longrightarrow>
   ten_env_log os_windows (Some env) level func_name file_name line_no msg category flds
     cur tr =
   ten_env_log_internal (Some env) level func_name file_name line_no msg category flds
     True cur (tr @ [Read_field Field_closed])"
  by (simp add: ten_env_log_def ten_env_is_closed_def)

lemma reads_append: "reads (xs @ ys) = reads xs @ reads ys"
  by (simp add: reads_def)

lemma submissions_append: "submissions (xs @ ys) = submissions xs @ submissions ys"
  by (simp add: submissions_def)

lemma diagnostics_append: "diagnostics (xs @ ys) = diagnostics xs @ diagnostics ys"
  by (simp add: diagnostics_def)

subsection \<open>The events of a call, whatever its path\<close>

lemma log_internal_events:
  "\<exists>evs. snd (ten_env_log_internal self level func_name file_name line_no msg category flds
              check_thread cur tr) = tr @ evs \<and>
     (\<forall>e \<in> set evs. is_submission e \<longrightarrow>
        (\<exists>m. e = Log_log \<lparr>lg_level = level, lg_func_name = func_name,
                 lg_file_name = file_name, lg_line_no = line_no, lg_msg = m,
                 lg_category = category, lg_fields = flds\<rparr>))"
proof (cases self)
  case None
  then show ?thesis by (simp add: log_internal_null)
next
  case (Some env)
  show ?thesis
  proof (cases check_thread)
    case False
    with Some show ?thesis by (simp add: log_internal_unchecked)
  next
    case True
    with Some show ?thesis
      by (cases "owner_thread env = cur")
        (simp_all add: log_internal_owner log_internal_foreign)
  qed
qed

lemma sized_internal_events:
  "\<exists>evs. snd (ten_env_log_with_size_formatted_internal self level func_name func_name_len
              file_name file_name_len line_no check_thread category category_len flds fmt
              ap cur tr) = tr @ evs \<and>
     (\<forall>e \<in> set evs. is_submission e \<longrightarrow>
        (\<exists>m. e = Log_log_with_size
                 \<lparr>sz_level = level, sz_func_name = func_name,
                  sz_func_name_len = func_name_len, sz_file_name = file_name,
                  sz_file_name_len = file_name_len, sz_line_no = line_no, sz_msg = m,
                  sz_msg_len = length m, sz_category = category,
                  sz_category_len = category_len, sz_fields = flds\<rparr>))"
proof (cases self)
  case None
  then show ?thesis by (simp add: sized_internal_null)
next
  case (Some env)
  show ?thesis
  proof (cases "c_format fmt ap")
    case None
    note undefined = this
    show ?thesis
    proof (cases check_thread)
      case False
      with Some undefined show ?thesis
        by (simp add: sized_internal_unchecked_undefined)
    next
      case True
      with Some undefined show ?thesis
        by (cases "owner_thread env = cur")
          (simp_all add: sized_internal_owner_undefined sized_internal_foreign)
    qed
  next
    case (Some body)
    note expanded = this
    show ?thesis
    proof (cases check_thread)
      case False
      with \<open>self = Some env\<close> expanded show ?thesis
        by (simp add: sized_internal_unchecked)
    next
      case True
      with \<open>self = Some env\<close> expanded show ?thesis
        by (cases "owner_thread env = cur")
          (simp_all add: sized_internal_owner sized_internal_foreign)
    qed
  qed
qed

lemma log_events:
  "\<exists>evs. snd (ten_env_log os_windows self level func_name file_name line_no msg category
              flds cur tr) = tr @ evs \<and>
     (\<forall>e \<in> set evs. is_submission e \<longrightarrow>
        (\<exists>m. e = Log_log \<lparr>lg_level = level, lg_func_name = func_name,
                 lg_file_name = file_name, lg_line_no = line_no, lg_msg = m,
                 lg_category = category, lg_fields = flds\<rparr>))"
proof (cases self)
  case None
  then show ?thesis by (simp add: ten_env_log_def ten_env_is_closed_def)
next
  case (Some env)
  show ?thesis
  proof (cases "is_closed env")
    case True
    with Some show ?thesis by (simp add: log_closed)
  next
    case False
    obtain evs where evs:
      "snd (ten_env_log_internal (Some env) level func_name file_name line_no msg category
              flds True cur (tr @ [Read_field Field_closed])) =
         (tr @ [Read_field Field_closed]) @ evs"
      "\<forall>e \<in> set evs. is_submission e \<longrightarrow>
        (\<exists>m. e = Log_log \<lparr>lg_level = level, lg_func_name = func_name,
                 lg_file_name = file_name, lg_line_no = line_no, lg_msg = m,
                 lg_category = category, lg_fields = flds\<rparr>)"
      using log_internal_events by blast
    have "snd (ten_env_log os_windows self level func_name file_name line_no msg category
              flds cur tr) = tr @ (Read_field Field_closed # evs)"
      using Some False evs(1) by (simp add: log_open)
    moreover have "\<forall>e \<in> set (Read_field Field_closed # evs). is_submission e \<longrightarrow>
        (\<exists>m. e = Log_log \<lparr>lg_level = level, lg_func_name = func_name,
                 lg_file_name = file_name, lg_line_no = line_no, lg_msg = m,
                 lg_category = category, lg_fields = flds\<rparr>)"
      using evs(2) by simp
    ultimately show ?thesis by blast
  qed
qed

lemma formatted_events:
  "\<exists>evs. snd (ten_env_log_formatted self level func_name file_name line_no category
              category_len flds fmt ap cur tr) = tr @ evs \<and>
     (\<forall>e \<in> set evs. is_submission e \<longrightarrow>
        (\<exists>m n1 n2. e = Log_log_with_size
                 \<lparr>sz_level = level, sz_func_name = func_name,
                  sz_func_name_len = n1, sz_file_name = file_name,
                  sz_file_name_len = n2, sz_line_no = line_no, sz_msg = m,
                  sz_msg_len = length m, sz_category = category,
                  sz_category_len = category_len, sz_fields = flds\<rparr>))"
proof (cases "strlen func_name")
  case None
  then show ?thesis by (simp add: ten_env_log_formatted_def)
next
  case (Some n1)
  note s1 = this
  show ?thesis
  proof (cases "strlen file_name")
    case None
    with s1 show ?thesis by (simp add: ten_env_log_formatted_def)
  next
    case (Some n2)
    with s1 have eq: "ten_env_log_formatted self level func_name file_name line_no category
        category_len flds fmt ap cur tr =
      ten_env_log_with_size_formatted_internal self level func_name n1 file_name n2 line_no
        True category category_len flds fmt ap cur tr"
      by (simp add: ten_env_log_formatted_def)
    obtain evs where evs:
      "snd (ten_env_log_with_size_formatted_internal self level func_name n1 file_name n2
              line_no True category category_len flds fmt ap cur tr) = tr @ evs"
      "\<forall>e \<in> set evs. is_submission e \<longrightarrow>
        (\<exists>m. e = Log_log_with_size
                 \<lparr>sz_level = level, sz_func_name = func_name,
                  sz_func_name_len = n1, sz_file_name = file_name,
                  sz_file_name_len = n2, sz_line_no = line_no, sz_msg = m,
                  sz_msg_len = length m, sz_category = category,
                  sz_category_len = category_len, sz_fields = flds\<rparr>)"
      using sized_internal_events by blast
    from evs(2) have "\<forall>e \<in> set evs. is_submission e \<longrightarrow>
        (\<exists>m n1 n2. e = Log_log_with_size
                 \<lparr>sz_level = level, sz_func_name = func_name,
                  sz_func_name_len = n1, sz_file_name = file_name,
                  sz_file_name_len = n2, sz_line_no = line_no, sz_msg = m,
                  sz_msg_len = length m, sz_category = category,
                  sz_category_len = category_len, sz_fields = flds\<rparr>)"
      by blast
    with evs(1) show ?thesis
      unfolding eq by blast
  qed
qed

section \<open>The claims\<close>

subsection \<open>The closed handle\<close>

text \<open>
  Only \<^verbatim>\<open>ten_env_log\<close> asks \<^verbatim>\<open>ten_env_is_closed\<close>. An unchecked entry point
  called on a closed handle resolves the instance name and submits a record.
\<close>

theorem unchecked_entry_ignores_closed_flag:
  "is_closed \<lparr>attached_instance_name = ''ext'', owner_thread = 1, is_closed = True\<rparr> \<and>
   ten_env_log_without_check_thread
     (Some \<lparr>attached_instance_name = ''ext'', owner_thread = 1, is_closed = True\<rparr>)
     3 (Ptr (''f'' @ [CHR 0x00])) (Ptr (''a.c'' @ [CHR 0x00])) 10 ''bye'' Null 0 1 [] =
   (Returned,
    [Read_field Field_instance_name,
     Log_log \<lparr>lg_level = 3, lg_func_name = Ptr (''f'' @ [CHR 0x00]),
              lg_file_name = Ptr (''a.c'' @ [CHR 0x00]), lg_line_no = 10,
              lg_msg = ''[ext] bye'', lg_category = Null, lg_fields = 0\<rparr>])"
  by (simp add: ten_env_log_without_check_thread_def log_internal_unchecked)

text \<open>
  Claim C1, as amended. On a handle whose closed flag is true, \<^verbatim>\<open>ten_env_log\<close> reads
  the closed flag and no other field of the handle (neither the instance name nor the
  owning-thread descriptor) and submits nothing to the sink. The two unchecked entry
  points have no closed-state guard: on such a handle they read the instance name and
  no other field, neither the closed flag nor the owning-thread descriptor.
\<close>

theorem closed_handle_reads_and_submissions:
  assumes "is_closed env"
  shows
    "reads (snd (ten_env_log os_windows (Some env) level func_name file_name line_no msg
                   category flds cur tr)) = reads tr @ [Read_field Field_closed] \<and>
     submissions (snd (ten_env_log os_windows (Some env) level func_name file_name line_no
                         msg category flds cur tr)) = submissions tr \<and>
     reads (snd (ten_env_log_without_check_thread (Some env) level func_name file_name
                   line_no msg category flds cur tr)) =
       reads tr @ [Read_field Field_instance_name] \<and>
     reads (snd (ten_env_log_with_size_formatted_without_check_thread (Some env) level
                   func_name func_name_len file_name file_name_len line_no category
                   category_len flds fmt ap cur tr)) =
       reads tr @ [Read_field Field_instance_name]"
proof -
  have direct: "reads (snd (ten_env_log_without_check_thread (Some env) level func_name
      file_name line_no msg category flds cur tr)) = reads tr @ [Read_field Field_instance_name]"
    by (simp add: ten_env_log_without_check_thread_def log_internal_unchecked reads_def)
  have formatted: "reads (snd (ten_env_log_with_size_formatted_without_check_thread (Some env)
      level func_name func_name_len file_name file_name_len line_no category category_len
      flds fmt ap cur tr)) = reads tr @ [Read_field Field_instance_name]"
  proof (cases "c_format fmt ap")
    case None
    then show ?thesis
      by (simp add: ten_env_log_with_size_formatted_without_check_thread_def
          sized_internal_unchecked_undefined reads_def)
  next
    case (Some body)
    then show ?thesis
      by (simp add: ten_env_log_with_size_formatted_without_check_thread_def
          sized_internal_unchecked reads_def)
  qed
  from assms direct formatted show ?thesis
    by (simp add: log_closed reads_def submissions_def)
qed

theorem closed_handle_reads_and_submissions_witness:
  "is_closed \<lparr>attached_instance_name = ''ext'', owner_thread = 1, is_closed = True\<rparr> \<and>
   reads (snd (ten_env_log False
     (Some \<lparr>attached_instance_name = ''ext'', owner_thread = 1, is_closed = True\<rparr>)
     3 (Ptr (''f'' @ [CHR 0x00])) (Ptr (''a.c'' @ [CHR 0x00])) 10 ''bye'' Null 0 1 [])) =
     [Read_field Field_closed] \<and>
   submissions (snd (ten_env_log False
     (Some \<lparr>attached_instance_name = ''ext'', owner_thread = 1, is_closed = True\<rparr>)
     3 (Ptr (''f'' @ [CHR 0x00])) (Ptr (''a.c'' @ [CHR 0x00])) 10 ''bye'' Null 0 1 [])) = []"
proof -
  have h: "is_closed \<lparr>attached_instance_name = ''ext'', owner_thread = 1, is_closed = True\<rparr>"
    by simp
  from closed_handle_reads_and_submissions [OF h, where os_windows = False and level = 3
      and func_name = "Ptr (''f'' @ [CHR 0x00])" and file_name = "Ptr (''a.c'' @ [CHR 0x00])"
      and line_no = 10 and msg = "''bye''" and category = Null and flds = 0 and cur = 1
      and tr = "[]"]
  show ?thesis
    by (simp add: reads_def submissions_def)
qed

text \<open>
  In a build with \<^verbatim>\<open>OS_WINDOWS\<close> defined the closed path of \<^verbatim>\<open>ten_env_log\<close> writes
  nothing: the call reads the flag and returns.
\<close>

theorem closed_notice_absent_on_windows:
  "is_closed \<lparr>attached_instance_name = ''ext'', owner_thread = 1, is_closed = True\<rparr> \<and>
   ten_env_log True
     (Some \<lparr>attached_instance_name = ''ext'', owner_thread = 1, is_closed = True\<rparr>)
     3 (Ptr (''f'' @ [CHR 0x00])) (Ptr (''a.c'' @ [CHR 0x00])) 10 ''bye'' Null 0 1 [] =
   (Returned, [Read_field Field_closed])"
  by (simp add: log_closed)

text \<open>
  Claim C2, as amended. On a handle that is closed at call time \<^verbatim>\<open>ten_env_log\<close>
  builds and dispatches no record and returns normally. Where \<^verbatim>\<open>OS_WINDOWS\<close> is not
  defined it performs exactly one write to the standard error descriptor, the text
  \<^verbatim>\<open>ten_env_log failed due to closed: \<close> followed by the caller's message, without
  the instance-name prefix, and a newline; where it is defined it writes nothing. The
  read of the closed flag is the only other event of the call.
\<close>

theorem ten_env_log_closed_path:
  assumes "is_closed env"
  shows
    "ten_env_log os_windows (Some env) level func_name file_name line_no msg category flds
       cur tr =
     (Returned,
      tr @ Read_field Field_closed #
        (if os_windows then []
         else [Dprintf STDERR_FILENO
                 (''ten_env_log failed due to closed: '' @ msg @ [CHR 0x0A])]))"
  using assms by (simp add: ten_env_log_def ten_env_is_closed_def)

theorem ten_env_log_closed_path_witness:
  "is_closed \<lparr>attached_instance_name = ''ext'', owner_thread = 1, is_closed = True\<rparr> \<and>
   ten_env_log False
     (Some \<lparr>attached_instance_name = ''ext'', owner_thread = 1, is_closed = True\<rparr>)
     3 (Ptr (''f'' @ [CHR 0x00])) (Ptr (''a.c'' @ [CHR 0x00])) 10 ''bye'' Null 0 7 [] =
   (Returned,
    [Read_field Field_closed,
     Dprintf 2 (''ten_env_log failed due to closed: bye'' @ [CHR 0x0A])])"
proof -
  have h: "is_closed \<lparr>attached_instance_name = ''ext'', owner_thread = 1, is_closed = True\<rparr>"
    by simp
  from ten_env_log_closed_path [OF h, where os_windows = False and level = 3
      and func_name = "Ptr (''f'' @ [CHR 0x00])" and file_name = "Ptr (''a.c'' @ [CHR 0x00])"
      and line_no = 10 and msg = "''bye''" and category = Null and flds = 0 and cur = 7
      and tr = "[]"]
  show ?thesis
    by (simp add: STDERR_FILENO_def)
qed

subsection \<open>The composed message\<close>

text \<open>
  Claim C3. On an open handle, a checked entry point called from the owning thread
  returns and delivers exactly one record to the sink, and the message of that record
  is \<^verbatim>\<open>[\<close>, the instance name, \<^verbatim>\<open>]\<close>, one space, and then the body: the caller's
  message for the direct shape, the expansion of the format for the formatted shapes.
  The function and file names of \<^verbatim>\<open>ten_env_log_formatted\<close> are C strings, and the
  format is one the expansion is defined for.
\<close>

theorem checked_entry_composes_prefixed_message:
  assumes "\<not> is_closed env"
    and "owner_thread env = cur"
    and "strlen func_name = Some func_name_len"
    and "strlen file_name = Some file_name_len"
    and "c_format fmt ap = Some body"
  shows
    "fst (ten_env_log os_windows (Some env) level func_name file_name line_no msg category
            flds cur tr) = Returned \<and>
     submissions (snd (ten_env_log os_windows (Some env) level func_name file_name line_no
                         msg category flds cur tr)) =
       submissions tr @
         [Log_log \<lparr>lg_level = level, lg_func_name = func_name, lg_file_name = file_name,
                   lg_line_no = line_no,
                   lg_msg = ''['' @ attached_instance_name env @ ''] '' @ msg,
                   lg_category = category, lg_fields = flds\<rparr>] \<and>
     fst (ten_env_log_formatted (Some env) level func_name file_name line_no category
            category_len flds fmt ap cur tr) = Returned \<and>
     submissions (snd (ten_env_log_formatted (Some env) level func_name file_name line_no
                         category category_len flds fmt ap cur tr)) =
       submissions tr @
         [Log_log_with_size
            \<lparr>sz_level = level, sz_func_name = func_name, sz_func_name_len = func_name_len,
             sz_file_name = file_name, sz_file_name_len = file_name_len,
             sz_line_no = line_no,
             sz_msg = ''['' @ attached_instance_name env @ ''] '' @ body,
             sz_msg_len = length (''['' @ attached_instance_name env @ ''] '' @ body),
             sz_category = category, sz_category_len = category_len,
             sz_fields = flds\<rparr>] \<and>
     fst (ten_env_log_with_size_formatted (Some env) level func_name n1 file_name n2
            line_no category category_len flds fmt ap cur tr) = Returned \<and>
     submissions (snd (ten_env_log_with_size_formatted (Some env) level func_name n1
                         file_name n2 line_no category category_len flds fmt ap cur tr)) =
       submissions tr @
         [Log_log_with_size
            \<lparr>sz_level = level, sz_func_name = func_name, sz_func_name_len = n1,
             sz_file_name = file_name, sz_file_name_len = n2,
             sz_line_no = line_no,
             sz_msg = ''['' @ attached_instance_name env @ ''] '' @ body,
             sz_msg_len = length (''['' @ attached_instance_name env @ ''] '' @ body),
             sz_category = category, sz_category_len = category_len,
             sz_fields = flds\<rparr>]"
proof -
  note direct = log_internal_owner [OF assms(2)]
  note sized = sized_internal_owner [OF assms(2) assms(5)]
  have a: "fst (ten_env_log os_windows (Some env) level func_name file_name line_no msg
      category flds cur tr) = Returned"
    using assms(1) by (simp add: log_open direct)
  have b: "submissions (snd (ten_env_log os_windows (Some env) level func_name file_name
      line_no msg category flds cur tr)) =
       submissions tr @
         [Log_log \<lparr>lg_level = level, lg_func_name = func_name, lg_file_name = file_name,
                   lg_line_no = line_no,
                   lg_msg = ''['' @ attached_instance_name env @ ''] '' @ msg,
                   lg_category = category, lg_fields = flds\<rparr>]"
    using assms(1) by (simp add: log_open direct submissions_def)
  have c: "ten_env_log_formatted (Some env) level func_name file_name line_no category
      category_len flds fmt ap cur tr =
    ten_env_log_with_size_formatted_internal (Some env) level func_name func_name_len
      file_name file_name_len line_no True category category_len flds fmt ap cur tr"
    using assms(3,4) by (simp add: ten_env_log_formatted_def)
  show ?thesis
    unfolding c ten_env_log_with_size_formatted_def sized a b
    by (simp add: submissions_def)
qed

theorem checked_entry_composes_prefixed_message_witness:
  "submissions (snd (ten_env_log False
     (Some \<lparr>attached_instance_name = ''ext'', owner_thread = 7, is_closed = False\<rparr>)
     3 (Ptr (''f'' @ [CHR 0x00])) (Ptr (''a.c'' @ [CHR 0x00])) 10 ''hello'' Null 0 7 [])) =
   [Log_log \<lparr>lg_level = 3, lg_func_name = Ptr (''f'' @ [CHR 0x00]),
            lg_file_name = Ptr (''a.c'' @ [CHR 0x00]), lg_line_no = 10,
            lg_msg = ''[ext] hello'', lg_category = Null, lg_fields = 0\<rparr>] \<and>
   submissions (snd (ten_env_log_formatted
     (Some \<lparr>attached_instance_name = ''ext'', owner_thread = 7, is_closed = False\<rparr>)
     3 (Ptr (''f'' @ [CHR 0x00])) (Ptr (''a.c'' @ [CHR 0x00])) 10 Null 0 0
     ''%s!'' [Arg_str ''hello''] 7 [])) =
   [Log_log_with_size
      \<lparr>sz_level = 3, sz_func_name = Ptr (''f'' @ [CHR 0x00]), sz_func_name_len = 1,
       sz_file_name = Ptr (''a.c'' @ [CHR 0x00]), sz_file_name_len = 3, sz_line_no = 10,
       sz_msg = ''[ext] hello!'', sz_msg_len = 12, sz_category = Null,
       sz_category_len = 0, sz_fields = 0\<rparr>]"
proof -
  have h1: "\<not> is_closed \<lparr>attached_instance_name = ''ext'', owner_thread = 7, is_closed = False\<rparr>"
    by simp
  have h2: "owner_thread \<lparr>attached_instance_name = ''ext'', owner_thread = 7, is_closed = False\<rparr> = 7"
    by simp
  have h3: "strlen (Ptr (''f'' @ [CHR 0x00])) = Some 1"
    by (simp add: strlen_def)
  have h4: "strlen (Ptr (''a.c'' @ [CHR 0x00])) = Some 3"
    by (simp add: strlen_def)
  have h5: "c_format ''%s!'' [Arg_str ''hello''] = Some ''hello!''"
    by simp
  from checked_entry_composes_prefixed_message [OF h1 h2 h3 h4 h5, where os_windows = False
      and level = 3 and line_no = 10 and msg = "''hello''" and category = Null
      and category_len = 0 and flds = 0 and tr = "[]"]
  show ?thesis
    by (simp add: submissions_def)
qed

text \<open>
  Claim C4. When the function name and the file name are C strings and the lengths given
  to \<^verbatim>\<open>ten_env_log_with_size_formatted\<close> are their \<^verbatim>\<open>strlen\<close> lengths, the two
  formatted entry points do the same on every handle, from every thread and for every
  format: the same outcome, the same events, and so the same record with the same
  message, lengths and forwarded metadata.
\<close>

theorem formatted_agrees_with_size_formatted:
  assumes "strlen func_name = Some func_name_len"
    and "strlen file_name = Some file_name_len"
  shows
    "ten_env_log_formatted self level func_name file_name line_no category category_len
       flds fmt ap cur tr =
     ten_env_log_with_size_formatted self level func_name func_name_len file_name
       file_name_len line_no category category_len flds fmt ap cur tr"
  using assms by (simp add: ten_env_log_formatted_def ten_env_log_with_size_formatted_def)

theorem formatted_agrees_with_size_formatted_witness:
  "strlen (Ptr (''main'' @ [CHR 0x00])) = Some 4 \<and>
   strlen (Ptr (''a.c'' @ [CHR 0x00])) = Some 3 \<and>
   ten_env_log_formatted
     (Some \<lparr>attached_instance_name = ''ext'', owner_thread = 7, is_closed = False\<rparr>)
     3 (Ptr (''main'' @ [CHR 0x00])) (Ptr (''a.c'' @ [CHR 0x00])) 10
     (Ptr (''net'' @ [CHR 0x00])) 3 0 ''%d items'' [Arg_int 5] 7 [] =
   ten_env_log_with_size_formatted
     (Some \<lparr>attached_instance_name = ''ext'', owner_thread = 7, is_closed = False\<rparr>)
     3 (Ptr (''main'' @ [CHR 0x00])) 4 (Ptr (''a.c'' @ [CHR 0x00])) 3 10
     (Ptr (''net'' @ [CHR 0x00])) 3 0 ''%d items'' [Arg_int 5] 7 [] \<and>
   submissions (snd (ten_env_log_formatted
     (Some \<lparr>attached_instance_name = ''ext'', owner_thread = 7, is_closed = False\<rparr>)
     3 (Ptr (''main'' @ [CHR 0x00])) (Ptr (''a.c'' @ [CHR 0x00])) 10
     (Ptr (''net'' @ [CHR 0x00])) 3 0 ''%d items'' [Arg_int 5] 7 [])) =
   [Log_log_with_size
      \<lparr>sz_level = 3, sz_func_name = Ptr (''main'' @ [CHR 0x00]), sz_func_name_len = 4,
       sz_file_name = Ptr (''a.c'' @ [CHR 0x00]), sz_file_name_len = 3, sz_line_no = 10,
       sz_msg = ''[ext] 5 items'', sz_msg_len = 13,
       sz_category = Ptr (''net'' @ [CHR 0x00]), sz_category_len = 3, sz_fields = 0\<rparr>]"
proof -
  have h1: "strlen (Ptr (''main'' @ [CHR 0x00])) = Some 4"
    by (simp add: strlen_def)
  have h2: "strlen (Ptr (''a.c'' @ [CHR 0x00])) = Some 3"
    by (simp add: strlen_def)
  have f: "c_format ''%d items'' [Arg_int 5] = Some ''5 items''"
    by code_simp
  have o: "owner_thread \<lparr>attached_instance_name = ''ext'', owner_thread = 7, is_closed = False\<rparr> = 7"
    by simp
  note eq = formatted_agrees_with_size_formatted [OF h1 h2,
      where self = "Some \<lparr>attached_instance_name = ''ext'', owner_thread = 7, is_closed = False\<rparr>"
        and level = 3 and line_no = 10 and category = "Ptr (''net'' @ [CHR 0x00])"
        and category_len = 3 and flds = 0 and fmt = "''%d items''" and ap = "[Arg_int 5]"
        and cur = 7 and tr = "[]"]
  show ?thesis
    unfolding eq
    by (simp add: strlen_def ten_env_log_with_size_formatted_def
        sized_internal_owner [OF o f] submissions_def)
qed

subsection \<open>The thread check\<close>

text \<open>
  Claim C5. On an open handle, a checked entry point called from a thread that is not
  the owning thread ends in the failed assertion, and the call delivers nothing to the
  sink. The function and file names of \<^verbatim>\<open>ten_env_log_formatted\<close> are C strings.
\<close>

theorem checked_entry_foreign_thread_aborts:
  assumes "\<not> is_closed env"
    and "owner_thread env \<noteq> cur"
    and "strlen func_name = Some func_name_len"
    and "strlen file_name = Some file_name_len"
  shows
    "fst (ten_env_log os_windows (Some env) level func_name file_name line_no msg category
            flds cur tr) = Aborted \<and>
     submissions (snd (ten_env_log os_windows (Some env) level func_name file_name line_no
                         msg category flds cur tr)) = submissions tr \<and>
     fst (ten_env_log_formatted (Some env) level func_name file_name line_no category
            category_len flds fmt ap cur tr) = Aborted \<and>
     submissions (snd (ten_env_log_formatted (Some env) level func_name file_name line_no
                         category category_len flds fmt ap cur tr)) = submissions tr \<and>
     fst (ten_env_log_with_size_formatted (Some env) level func_name n1 file_name n2
            line_no category category_len flds fmt ap cur tr) = Aborted \<and>
     submissions (snd (ten_env_log_with_size_formatted (Some env) level func_name n1
                         file_name n2 line_no category category_len flds fmt ap cur tr)) =
       submissions tr"
proof -
  note direct = log_internal_foreign [OF assms(2)]
  note sized = sized_internal_foreign [OF assms(2)]
  have a: "ten_env_log os_windows (Some env) level func_name file_name line_no msg category
      flds cur tr = (Aborted, tr @ [Read_field Field_closed, Read_field Field_owner_thread])"
    using assms(1) by (simp add: log_open direct)
  have c: "ten_env_log_formatted (Some env) level func_name file_name line_no category
      category_len flds fmt ap cur tr = (Aborted, tr @ [Read_field Field_owner_thread])"
    using assms(3,4) by (simp add: ten_env_log_formatted_def sized)
  show ?thesis
    unfolding a c ten_env_log_with_size_formatted_def sized
    by (simp add: submissions_def)
qed

theorem checked_entry_foreign_thread_aborts_witness:
  "ten_env_log False
     (Some \<lparr>attached_instance_name = ''ext'', owner_thread = 7, is_closed = False\<rparr>)
     3 (Ptr (''f'' @ [CHR 0x00])) (Ptr (''a.c'' @ [CHR 0x00])) 10 ''hello'' Null 0 8 [] =
     (Aborted, [Read_field Field_closed, Read_field Field_owner_thread]) \<and>
   fst (ten_env_log_formatted
     (Some \<lparr>attached_instance_name = ''ext'', owner_thread = 7, is_closed = False\<rparr>)
     3 (Ptr (''f'' @ [CHR 0x00])) (Ptr (''a.c'' @ [CHR 0x00])) 10 Null 0 0
     ''%d items'' [Arg_int 5] 8 []) = Aborted \<and>
   fst (ten_env_log_with_size_formatted
     (Some \<lparr>attached_instance_name = ''ext'', owner_thread = 7, is_closed = False\<rparr>)
     3 (Ptr (''f'' @ [CHR 0x00])) 1 (Ptr (''a.c'' @ [CHR 0x00])) 3 10 Null 0 0
     ''%d items'' [Arg_int 5] 8 []) = Aborted"
proof -
  have h1: "\<not> is_closed \<lparr>attached_instance_name = ''ext'', owner_thread = 7, is_closed = False\<rparr>"
    by simp
  have h2: "owner_thread \<lparr>attached_instance_name = ''ext'', owner_thread = 7, is_closed = False\<rparr> \<noteq> 8"
    by simp
  have h3: "strlen (Ptr (''f'' @ [CHR 0x00])) = Some 1"
    by (simp add: strlen_def)
  have h4: "strlen (Ptr (''a.c'' @ [CHR 0x00])) = Some 3"
    by (simp add: strlen_def)
  note inst = checked_entry_foreign_thread_aborts [OF h1 h2 h3 h4, where os_windows = False and level = 3 and line_no = 10
        and msg = "''hello''" and category = Null and category_len = 0 and flds = 0
        and fmt = "''%d items''" and ap = "[Arg_int 5]" and tr = "[]" and ?n1.0 = 1
        and ?n2.0 = 3]
  have tr: "snd (ten_env_log False
     (Some \<lparr>attached_instance_name = ''ext'', owner_thread = 7, is_closed = False\<rparr>)
     3 (Ptr (''f'' @ [CHR 0x00])) (Ptr (''a.c'' @ [CHR 0x00])) 10 ''hello'' Null 0 8 []) =
     [Read_field Field_closed, Read_field Field_owner_thread]"
    by (simp add: log_open log_internal_foreign)
  from inst tr show ?thesis
    by (simp add: prod_eq_iff)
qed

text \<open>
  Claim C6. On a handle that is not null and not closed, an unchecked entry point never
  ends in the failed assertion, whatever the calling thread: the integrity check runs
  with \<open>check_thread = False\<close>, the owning-thread descriptor is not read, and the call
  returns. For the formatted entry point the return is that of a format the expansion
  is defined for.
\<close>

theorem unchecked_entry_never_aborts:
  assumes "\<not> is_closed env"
  shows
    "fst (ten_env_log_without_check_thread (Some env) level func_name file_name line_no msg
            category flds cur tr) = Returned \<and>
     reads (snd (ten_env_log_without_check_thread (Some env) level func_name file_name
                   line_no msg category flds cur tr)) =
       reads tr @ [Read_field Field_instance_name] \<and>
     fst (ten_env_log_with_size_formatted_without_check_thread (Some env) level func_name
            func_name_len file_name file_name_len line_no category category_len flds fmt ap
            cur tr) \<noteq> Aborted \<and>
     (c_format fmt ap \<noteq> None \<longrightarrow>
        fst (ten_env_log_with_size_formatted_without_check_thread (Some env) level
               func_name func_name_len file_name file_name_len line_no category
               category_len flds fmt ap cur tr) = Returned) \<and>
     reads (snd (ten_env_log_with_size_formatted_without_check_thread (Some env) level
                   func_name func_name_len file_name file_name_len line_no category
                   category_len flds fmt ap cur tr)) =
       reads tr @ [Read_field Field_instance_name]"
proof (cases "c_format fmt ap")
  case None
  then show ?thesis
    by (simp add: ten_env_log_without_check_thread_def log_internal_unchecked
        ten_env_log_with_size_formatted_without_check_thread_def
        sized_internal_unchecked_undefined reads_def)
next
  case (Some body)
  then show ?thesis
    by (simp add: ten_env_log_without_check_thread_def log_internal_unchecked
        ten_env_log_with_size_formatted_without_check_thread_def
        sized_internal_unchecked reads_def)
qed

theorem unchecked_entry_never_aborts_witness:
  "\<not> is_closed \<lparr>attached_instance_name = ''addon'', owner_thread = 7, is_closed = False\<rparr> \<and>
   owner_thread \<lparr>attached_instance_name = ''addon'', owner_thread = 7, is_closed = False\<rparr> \<noteq> 8 \<and>
   fst (ten_env_log_without_check_thread
     (Some \<lparr>attached_instance_name = ''addon'', owner_thread = 7, is_closed = False\<rparr>)
     3 (Ptr (''f'' @ [CHR 0x00])) (Ptr (''a.c'' @ [CHR 0x00])) 10 ''hello'' Null 0 8 []) =
     Returned \<and>
   c_format ''%d items'' [Arg_int 5] \<noteq> None \<and>
   fst (ten_env_log_with_size_formatted_without_check_thread
     (Some \<lparr>attached_instance_name = ''addon'', owner_thread = 7, is_closed = False\<rparr>)
     3 (Ptr ''f'') 1 (Ptr ''a.c'') 3 10 Null 0 0 ''%d items'' [Arg_int 5] 8 []) = Returned"
proof -
  have h: "\<not> is_closed \<lparr>attached_instance_name = ''addon'', owner_thread = 7, is_closed = False\<rparr>"
    by simp
  have f: "c_format ''%d items'' [Arg_int 5] \<noteq> None"
    by code_simp
  from f h unchecked_entry_never_aborts [OF h, where level = 3
      and func_name = "Ptr (''f'' @ [CHR 0x00])" and file_name = "Ptr (''a.c'' @ [CHR 0x00])"
      and line_no = 10 and msg = "''hello''" and category = Null and flds = 0 and cur = 8
      and tr = "[]" and fmt = "''%d items''" and ap = "[Arg_int 5]"]
    unchecked_entry_never_aborts [OF h, where level = 3
      and func_name = "Ptr ''f''" and func_name_len = 1 and file_name = "Ptr ''a.c''"
      and file_name_len = 3
      and line_no = 10 and category = Null and category_len = 0 and flds = 0 and cur = 8
      and tr = "[]" and fmt = "''%d items''" and ap = "[Arg_int 5]"]
  show ?thesis
    by simp
qed

subsection \<open>What reaches the sink\<close>

text \<open>
  Claim C7. Every record an entry point submits carries the category pointer, the
  category length (in the length-qualified form) and the fields pointer that the
  caller passed, unchanged.
\<close>

theorem category_and_fields_forwarded:
  "(\<forall>e \<in> set (snd (ten_env_log os_windows self level func_name file_name line_no msg
                      category flds cur [])).
      is_submission e \<longrightarrow>
        submitted_category e = Some (category, None) \<and> submitted_fields e = Some flds) \<and>
   (\<forall>e \<in> set (snd (ten_env_log_without_check_thread self level func_name file_name line_no
                      msg category flds cur [])).
      is_submission e \<longrightarrow>
        submitted_category e = Some (category, None) \<and> submitted_fields e = Some flds) \<and>
   (\<forall>e \<in> set (snd (ten_env_log_formatted self level func_name file_name line_no category
                      category_len flds fmt ap cur [])).
      is_submission e \<longrightarrow>
        submitted_category e = Some (category, Some category_len) \<and>
        submitted_fields e = Some flds) \<and>
   (\<forall>e \<in> set (snd (ten_env_log_with_size_formatted self level func_name func_name_len
                      file_name file_name_len line_no category category_len flds fmt ap
                      cur [])).
      is_submission e \<longrightarrow>
        submitted_category e = Some (category, Some category_len) \<and>
        submitted_fields e = Some flds) \<and>
   (\<forall>e \<in> set (snd (ten_env_log_with_size_formatted_without_check_thread self level
                      func_name func_name_len file_name file_name_len line_no category
                      category_len flds fmt ap cur [])).
      is_submission e \<longrightarrow>
        submitted_category e = Some (category, Some category_len) \<and>
        submitted_fields e = Some flds)"
proof -
  have a: "\<forall>e \<in> set (snd (ten_env_log os_windows self level func_name file_name line_no msg
                      category flds cur [])).
      is_submission e \<longrightarrow>
        submitted_category e = Some (category, None) \<and> submitted_fields e = Some flds"
    using log_events [of os_windows self level func_name file_name line_no msg category
        flds cur "[]"]
    by auto
  have b: "\<forall>e \<in> set (snd (ten_env_log_without_check_thread self level func_name file_name
                      line_no msg category flds cur [])).
      is_submission e \<longrightarrow>
        submitted_category e = Some (category, None) \<and> submitted_fields e = Some flds"
    unfolding ten_env_log_without_check_thread_def
    using log_internal_events [of self level func_name file_name line_no msg category
        flds False cur "[]"]
    by auto
  have c: "\<forall>e \<in> set (snd (ten_env_log_formatted self level func_name file_name line_no
                      category category_len flds fmt ap cur [])).
      is_submission e \<longrightarrow>
        submitted_category e = Some (category, Some category_len) \<and>
        submitted_fields e = Some flds"
    using formatted_events [of self level func_name file_name line_no category
        category_len flds fmt ap cur "[]"]
    by auto
  have d: "\<forall>e \<in> set (snd (ten_env_log_with_size_formatted_internal self level func_name
                      func_name_len file_name file_name_len line_no chk category
                      category_len flds fmt ap cur [])).
      is_submission e \<longrightarrow>
        submitted_category e = Some (category, Some category_len) \<and>
        submitted_fields e = Some flds" for chk
    using sized_internal_events [of self level func_name func_name_len file_name
        file_name_len line_no chk category category_len flds fmt ap cur "[]"]
    by auto
  show ?thesis
    using a b c d [of True] d [of False]
    unfolding ten_env_log_with_size_formatted_def
      ten_env_log_with_size_formatted_without_check_thread_def
    by blast
qed

theorem category_and_fields_forwarded_witness:
  "Log_log_with_size
      \<lparr>sz_level = 3, sz_func_name = Ptr ''f'', sz_func_name_len = 1,
       sz_file_name = Ptr ''a.c'', sz_file_name_len = 3, sz_line_no = 10,
       sz_msg = ''[ext] 5 items'', sz_msg_len = 13,
       sz_category = Ptr ''net'', sz_category_len = 3, sz_fields = 4096\<rparr>
     \<in> set (snd (ten_env_log_with_size_formatted
          (Some \<lparr>attached_instance_name = ''ext'', owner_thread = 7, is_closed = False\<rparr>)
          3 (Ptr ''f'') 1 (Ptr ''a.c'') 3 10 (Ptr ''net'') 3 4096
          ''%d items'' [Arg_int 5] 7 [])) \<and>
   submitted_category (Log_log_with_size
      \<lparr>sz_level = 3, sz_func_name = Ptr ''f'', sz_func_name_len = 1,
       sz_file_name = Ptr ''a.c'', sz_file_name_len = 3, sz_line_no = 10,
       sz_msg = ''[ext] 5 items'', sz_msg_len = 13,
       sz_category = Ptr ''net'', sz_category_len = 3, sz_fields = 4096\<rparr>) =
     Some (Ptr ''net'', Some 3) \<and>
   submitted_fields (Log_log_with_size
      \<lparr>sz_level = 3, sz_func_name = Ptr ''f'', sz_func_name_len = 1,
       sz_file_name = Ptr ''a.c'', sz_file_name_len = 3, sz_line_no = 10,
       sz_msg = ''[ext] 5 items'', sz_msg_len = 13,
       sz_category = Ptr ''net'', sz_category_len = 3, sz_fields = 4096\<rparr>) = Some 4096"
proof -
  have o: "owner_thread \<lparr>attached_instance_name = ''ext'', owner_thread = 7, is_closed = False\<rparr> = 7"
    by simp
  have f: "c_format ''%d items'' [Arg_int 5] = Some ''5 items''"
    by code_simp
  have mem: "Log_log_with_size
      \<lparr>sz_level = 3, sz_func_name = Ptr ''f'', sz_func_name_len = 1,
       sz_file_name = Ptr ''a.c'', sz_file_name_len = 3, sz_line_no = 10,
       sz_msg = ''[ext] 5 items'', sz_msg_len = 13,
       sz_category = Ptr ''net'', sz_category_len = 3, sz_fields = 4096\<rparr>
     \<in> set (snd (ten_env_log_with_size_formatted
          (Some \<lparr>attached_instance_name = ''ext'', owner_thread = 7, is_closed = False\<rparr>)
          3 (Ptr ''f'') 1 (Ptr ''a.c'') 3 10 (Ptr ''net'') 3 4096
          ''%d items'' [Arg_int 5] 7 []))"
    by (simp add: ten_env_log_with_size_formatted_def sized_internal_owner [OF o f])
  have sub: "is_submission (Log_log_with_size
      \<lparr>sz_level = 3, sz_func_name = Ptr ''f'', sz_func_name_len = 1,
       sz_file_name = Ptr ''a.c'', sz_file_name_len = 3, sz_line_no = 10,
       sz_msg = ''[ext] 5 items'', sz_msg_len = 13,
       sz_category = Ptr ''net'', sz_category_len = 3, sz_fields = 4096\<rparr>)"
    by simp
  from mem sub category_and_fields_forwarded [where self =
        "Some \<lparr>attached_instance_name = ''ext'', owner_thread = 7, is_closed = False\<rparr>"
      and level = 3 and func_name = "Ptr ''f''" and func_name_len = 1
      and file_name = "Ptr ''a.c''" and file_name_len = 3 and line_no = 10
      and category = "Ptr ''net''" and category_len = 3 and flds = 4096
      and fmt = "''%d items''" and ap = "[Arg_int 5]" and cur = 7]
  show ?thesis
    by blast
qed

text \<open>
  The direct-message path composes its message in the string buffer as well, and
  submits it through the plain form: the length the buffer keeps is not passed on.
\<close>

theorem direct_path_uses_plain_form:
  "ten_env_log False
     (Some \<lparr>attached_instance_name = ''ext'', owner_thread = 7, is_closed = False\<rparr>)
     3 (Ptr (''f'' @ [CHR 0x00])) (Ptr (''a.c'' @ [CHR 0x00])) 10 ''hello'' Null 0 7 [] =
   (Returned,
    [Read_field Field_closed, Read_field Field_owner_thread, Read_field Field_owner_thread,
     Read_field Field_instance_name,
     Log_log \<lparr>lg_level = 3, lg_func_name = Ptr (''f'' @ [CHR 0x00]),
              lg_file_name = Ptr (''a.c'' @ [CHR 0x00]), lg_line_no = 10,
              lg_msg = ''[ext] hello'', lg_category = Null, lg_fields = 0\<rparr>]) \<and>
   \<not> is_sized_form
       (Log_log \<lparr>lg_level = 3, lg_func_name = Ptr (''f'' @ [CHR 0x00]),
                 lg_file_name = Ptr (''a.c'' @ [CHR 0x00]), lg_line_no = 10,
                 lg_msg = ''[ext] hello'', lg_category = Null, lg_fields = 0\<rparr>)"
  by (simp add: log_open log_internal_owner)

text \<open>
  Claim C8, as amended. The formatted entry points submit through the length-qualified
  form, and the message length they pass is the length of the composed buffer. The
  direct-message entry points submit through the plain form.
\<close>

theorem sink_form_by_entry_point:
  "(\<forall>e \<in> set (snd (ten_env_log os_windows self level func_name file_name line_no msg
                      category flds cur [])).
      is_submission e \<longrightarrow> is_plain_form e) \<and>
   (\<forall>e \<in> set (snd (ten_env_log_without_check_thread self level func_name file_name line_no
                      msg category flds cur [])).
      is_submission e \<longrightarrow> is_plain_form e) \<and>
   (\<forall>e \<in> set (snd (ten_env_log_formatted self level func_name file_name line_no category
                      category_len flds fmt ap cur [])).
      is_submission e \<longrightarrow> is_sized_form e) \<and>
   (\<forall>e \<in> set (snd (ten_env_log_with_size_formatted self level func_name func_name_len
                      file_name file_name_len line_no category category_len flds fmt ap
                      cur [])).
      is_submission e \<longrightarrow> is_sized_form e) \<and>
   (\<forall>e \<in> set (snd (ten_env_log_with_size_formatted_without_check_thread self level
                      func_name func_name_len file_name file_name_len line_no category
                      category_len flds fmt ap cur [])).
      is_submission e \<longrightarrow> is_sized_form e)"
proof -
  have a: "\<forall>e \<in> set (snd (ten_env_log os_windows self level func_name file_name line_no msg
                      category flds cur [])).
      is_submission e \<longrightarrow> is_plain_form e"
    using log_events [of os_windows self level func_name file_name line_no msg category
        flds cur "[]"]
    by auto
  have b: "\<forall>e \<in> set (snd (ten_env_log_without_check_thread self level func_name file_name
                      line_no msg category flds cur [])).
      is_submission e \<longrightarrow> is_plain_form e"
    unfolding ten_env_log_without_check_thread_def
    using log_internal_events [of self level func_name file_name line_no msg category
        flds False cur "[]"]
    by auto
  have c: "\<forall>e \<in> set (snd (ten_env_log_formatted self level func_name file_name line_no
                      category category_len flds fmt ap cur [])).
      is_submission e \<longrightarrow> is_sized_form e"
    using formatted_events [of self level func_name file_name line_no category
        category_len flds fmt ap cur "[]"]
    by auto
  have d: "\<forall>e \<in> set (snd (ten_env_log_with_size_formatted_internal self level func_name
                      func_name_len file_name file_name_len line_no chk category
                      category_len flds fmt ap cur [])).
      is_submission e \<longrightarrow> is_sized_form e" for chk
    using sized_internal_events [of self level func_name func_name_len file_name
        file_name_len line_no chk category category_len flds fmt ap cur "[]"]
    by auto
  show ?thesis
    using a b c d [of True] d [of False]
    unfolding ten_env_log_with_size_formatted_def
      ten_env_log_with_size_formatted_without_check_thread_def
    by blast
qed

theorem sink_form_by_entry_point_witness:
  "Log_log_with_size
      \<lparr>sz_level = 3, sz_func_name = Ptr ''f'', sz_func_name_len = 1,
       sz_file_name = Ptr ''a.c'', sz_file_name_len = 3, sz_line_no = 10,
       sz_msg = ''[ext] 5 items'', sz_msg_len = 13,
       sz_category = Ptr ''net'', sz_category_len = 3, sz_fields = 4096\<rparr>
     \<in> set (snd (ten_env_log_with_size_formatted_without_check_thread
          (Some \<lparr>attached_instance_name = ''ext'', owner_thread = 7, is_closed = False\<rparr>)
          3 (Ptr ''f'') 1 (Ptr ''a.c'') 3 10 (Ptr ''net'') 3 4096
          ''%d items'' [Arg_int 5] 9 [])) \<and>
   is_sized_form (Log_log_with_size
      \<lparr>sz_level = 3, sz_func_name = Ptr ''f'', sz_func_name_len = 1,
       sz_file_name = Ptr ''a.c'', sz_file_name_len = 3, sz_line_no = 10,
       sz_msg = ''[ext] 5 items'', sz_msg_len = 13,
       sz_category = Ptr ''net'', sz_category_len = 3, sz_fields = 4096\<rparr>) \<and>
   Log_log \<lparr>lg_level = 3, lg_func_name = Ptr (''f'' @ [CHR 0x00]),
            lg_file_name = Ptr (''a.c'' @ [CHR 0x00]), lg_line_no = 10,
            lg_msg = ''[ext] hello'', lg_category = Null, lg_fields = 0\<rparr>
     \<in> set (snd (ten_env_log_without_check_thread
          (Some \<lparr>attached_instance_name = ''ext'', owner_thread = 7, is_closed = False\<rparr>)
          3 (Ptr (''f'' @ [CHR 0x00])) (Ptr (''a.c'' @ [CHR 0x00])) 10 ''hello'' Null 0 9 [])) \<and>
   is_plain_form (Log_log \<lparr>lg_level = 3, lg_func_name = Ptr (''f'' @ [CHR 0x00]),
            lg_file_name = Ptr (''a.c'' @ [CHR 0x00]), lg_line_no = 10,
            lg_msg = ''[ext] hello'', lg_category = Null, lg_fields = 0\<rparr>)"
proof -
  have f: "c_format ''%d items'' [Arg_int 5] = Some ''5 items''"
    by code_simp
  have mem1: "Log_log_with_size
      \<lparr>sz_level = 3, sz_func_name = Ptr ''f'', sz_func_name_len = 1,
       sz_file_name = Ptr ''a.c'', sz_file_name_len = 3, sz_line_no = 10,
       sz_msg = ''[ext] 5 items'', sz_msg_len = 13,
       sz_category = Ptr ''net'', sz_category_len = 3, sz_fields = 4096\<rparr>
     \<in> set (snd (ten_env_log_with_size_formatted_without_check_thread
          (Some \<lparr>attached_instance_name = ''ext'', owner_thread = 7, is_closed = False\<rparr>)
          3 (Ptr ''f'') 1 (Ptr ''a.c'') 3 10 (Ptr ''net'') 3 4096
          ''%d items'' [Arg_int 5] 9 []))"
    by (simp add: ten_env_log_with_size_formatted_without_check_thread_def
        sized_internal_unchecked [OF f])
  have sub1: "is_submission (Log_log_with_size
      \<lparr>sz_level = 3, sz_func_name = Ptr ''f'', sz_func_name_len = 1,
       sz_file_name = Ptr ''a.c'', sz_file_name_len = 3, sz_line_no = 10,
       sz_msg = ''[ext] 5 items'', sz_msg_len = 13,
       sz_category = Ptr ''net'', sz_category_len = 3, sz_fields = 4096\<rparr>)"
    by simp
  have mem2: "Log_log \<lparr>lg_level = 3, lg_func_name = Ptr (''f'' @ [CHR 0x00]),
            lg_file_name = Ptr (''a.c'' @ [CHR 0x00]), lg_line_no = 10,
            lg_msg = ''[ext] hello'', lg_category = Null, lg_fields = 0\<rparr>
     \<in> set (snd (ten_env_log_without_check_thread
          (Some \<lparr>attached_instance_name = ''ext'', owner_thread = 7, is_closed = False\<rparr>)
          3 (Ptr (''f'' @ [CHR 0x00])) (Ptr (''a.c'' @ [CHR 0x00])) 10 ''hello'' Null 0 9 []))"
    by (simp add: ten_env_log_without_check_thread_def log_internal_unchecked)
  have sub2: "is_submission (Log_log \<lparr>lg_level = 3, lg_func_name = Ptr (''f'' @ [CHR 0x00]),
            lg_file_name = Ptr (''a.c'' @ [CHR 0x00]), lg_line_no = 10,
            lg_msg = ''[ext] hello'', lg_category = Null, lg_fields = 0\<rparr>)"
    by simp
  from mem1 sub1 mem2 sub2
    sink_form_by_entry_point [where self =
        "Some \<lparr>attached_instance_name = ''ext'', owner_thread = 7, is_closed = False\<rparr>"
      and level = 3 and func_name = "Ptr ''f''" and func_name_len = 1
      and file_name = "Ptr ''a.c''" and file_name_len = 3 and line_no = 10
      and category = "Ptr ''net''" and category_len = 3 and flds = 4096
      and fmt = "''%d items''" and ap = "[Arg_int 5]" and cur = 9]
    sink_form_by_entry_point [where self =
        "Some \<lparr>attached_instance_name = ''ext'', owner_thread = 7, is_closed = False\<rparr>"
      and level = 3 and func_name = "Ptr (''f'' @ [CHR 0x00])"
      and file_name = "Ptr (''a.c'' @ [CHR 0x00])" and line_no = 10 and msg = "''hello''"
      and category = Null and flds = 0 and cur = 9]
  show ?thesis
    by blast
qed

text \<open>
  Claim C9. A formatted entry point on an open handle, called from a permitted thread
  (the owning thread for the checked ones, any thread for the unchecked one), submits
  one record whose message is the instance-name prefix followed by the whole expansion
  of the format, whatever its length, and whose message length is the length of that
  text.
\<close>

theorem formatted_body_not_truncated:
  assumes "\<not> is_closed env"
    and "strlen func_name = Some func_name_len"
    and "strlen file_name = Some file_name_len"
    and "c_format fmt ap = Some body"
  shows
    "(owner_thread env = cur \<longrightarrow>
        map submitted_message
          (submissions (snd (ten_env_log_formatted (Some env) level func_name file_name
                               line_no category category_len flds fmt ap cur []))) =
          [Some (''['' @ attached_instance_name env @ ''] '' @ body,
                 Some (length (attached_instance_name env) + 3 + length body))]) \<and>
     (owner_thread env = cur \<longrightarrow>
        map submitted_message
          (submissions (snd (ten_env_log_with_size_formatted (Some env) level func_name n1
                               file_name n2 line_no category category_len flds fmt ap
                               cur []))) =
          [Some (''['' @ attached_instance_name env @ ''] '' @ body,
                 Some (length (attached_instance_name env) + 3 + length body))]) \<and>
     map submitted_message
       (submissions (snd (ten_env_log_with_size_formatted_without_check_thread (Some env)
                            level func_name n1 file_name n2 line_no category category_len
                            flds fmt ap cur []))) =
       [Some (''['' @ attached_instance_name env @ ''] '' @ body,
              Some (length (attached_instance_name env) + 3 + length body))]"
proof -
  have c: "ten_env_log_formatted (Some env) level func_name file_name line_no category
      category_len flds fmt ap cur [] =
    ten_env_log_with_size_formatted_internal (Some env) level func_name func_name_len
      file_name file_name_len line_no True category category_len flds fmt ap cur []"
    using assms(2,3) by (simp add: ten_env_log_formatted_def)
  show ?thesis
    unfolding c ten_env_log_with_size_formatted_def
      ten_env_log_with_size_formatted_without_check_thread_def
    using assms(4)
    by (simp add: sized_internal_owner sized_internal_unchecked submissions_def)
qed

theorem formatted_body_not_truncated_witness:
  "map submitted_message
     (submissions (snd (ten_env_log_formatted
        (Some \<lparr>attached_instance_name = ''ext'', owner_thread = 7, is_closed = False\<rparr>)
        3 (Ptr (''main'' @ [CHR 0x00])) (Ptr (''a.c'' @ [CHR 0x00])) 10 Null 0 0
        ''%d items'' [Arg_int 5] 7 []))) =
     [Some (''[ext] 5 items'', Some 13)] \<and>
   map submitted_message
     (submissions (snd (ten_env_log_with_size_formatted_without_check_thread
        (Some \<lparr>attached_instance_name = ''ext'', owner_thread = 7, is_closed = False\<rparr>)
        3 (Ptr (''main'' @ [CHR 0x00])) 4 (Ptr (''a.c'' @ [CHR 0x00])) 3 10 Null 0 0
        ''%d items'' [Arg_int 5] 7 []))) =
     [Some (''[ext] 5 items'', Some 13)]"
proof -
  have h1: "\<not> is_closed \<lparr>attached_instance_name = ''ext'', owner_thread = 7, is_closed = False\<rparr>"
    by simp
  have h2: "strlen (Ptr (''main'' @ [CHR 0x00])) = Some 4"
    by (simp add: strlen_def)
  have h3: "strlen (Ptr (''a.c'' @ [CHR 0x00])) = Some 3"
    by (simp add: strlen_def)
  have h4: "c_format ''%d items'' [Arg_int 5] = Some ''5 items''"
    by code_simp
  from formatted_body_not_truncated [OF h1 h2 h3 h4, where cur = 7 and level = 3
      and line_no = 10 and category = Null and category_len = 0 and flds = 0
      and ?n1.0 = 4 and ?n2.0 = 3]
  show ?thesis
    by simp
qed

text \<open>
  The expansion keeps bodies of several kilobytes whole.
\<close>

lemma c_format_kilobytes:
  "c_format ''%s|%s'' [Arg_str (replicate 4096 CHR ''a''), Arg_str (replicate 4096 CHR ''b'')] =
     Some (replicate 4096 CHR ''a'' @ ''|'' @ replicate 4096 CHR ''b'')"
  by simp

subsection \<open>The precondition of the null-terminated variant\<close>

text \<open>
  Claim C10. \<^verbatim>\<open>ten_env_log_formatted\<close> applies \<^verbatim>\<open>strlen\<close> to the function name and to
  the file name before its worker runs any guard: when one of them is the null pointer
  or holds no terminator, the call is undefined before any event, on every handle (null
  and closed ones included) and from every thread. \<^verbatim>\<open>ten_env_log_with_size_formatted\<close>
  does not scan them: on the same pointers it returns and forwards them as they are.
\<close>

theorem formatted_requires_c_strings:
  assumes "func_name = Null \<or> (\<exists>bs. func_name = Ptr bs \<and> CHR 0x00 \<notin> set bs) \<or>
           file_name = Null \<or> (\<exists>bs. file_name = Ptr bs \<and> CHR 0x00 \<notin> set bs)"
  shows
    "ten_env_log_formatted self level func_name file_name line_no category category_len flds
       fmt ap cur tr = (Undefined, tr) \<and>
     (owner_thread env = cur \<and> c_format fmt ap = Some body \<longrightarrow>
        ten_env_log_with_size_formatted (Some env) level func_name n1 file_name n2 line_no
          category category_len flds fmt ap cur tr =
        (Returned,
         tr @ [Read_field Field_owner_thread, Read_field Field_owner_thread,
               Read_field Field_instance_name,
               Log_log_with_size
                 \<lparr>sz_level = level, sz_func_name = func_name, sz_func_name_len = n1,
                  sz_file_name = file_name, sz_file_name_len = n2, sz_line_no = line_no,
                  sz_msg = ''['' @ attached_instance_name env @ ''] '' @ body,
                  sz_msg_len = length (''['' @ attached_instance_name env @ ''] '' @ body),
                  sz_category = category, sz_category_len = category_len,
                  sz_fields = flds\<rparr>]))"
proof -
  from assms have "strlen func_name = None \<or> strlen file_name = None"
    by (simp add: strlen_None_iff)
  then have "ten_env_log_formatted self level func_name file_name line_no category
      category_len flds fmt ap cur tr = (Undefined, tr)"
    by (auto simp: ten_env_log_formatted_def split: option.splits)
  then show ?thesis
    by (simp add: ten_env_log_with_size_formatted_def sized_internal_owner)
qed

theorem formatted_requires_c_strings_witness:
  "ten_env_log_formatted
     (Some \<lparr>attached_instance_name = ''ext'', owner_thread = 7, is_closed = False\<rparr>)
     3 Null (Ptr (''a.c'' @ [CHR 0x00])) 10 Null 0 0 ''%d items'' [Arg_int 5] 7 [] =
     (Undefined, []) \<and>
   ten_env_log_with_size_formatted
     (Some \<lparr>attached_instance_name = ''ext'', owner_thread = 7, is_closed = False\<rparr>)
     3 Null 0 (Ptr (''a.c'' @ [CHR 0x00])) 3 10 Null 0 0 ''%d items'' [Arg_int 5] 7 [] =
     (Returned,
      [Read_field Field_owner_thread, Read_field Field_owner_thread,
       Read_field Field_instance_name,
       Log_log_with_size
         \<lparr>sz_level = 3, sz_func_name = Null, sz_func_name_len = 0,
          sz_file_name = Ptr (''a.c'' @ [CHR 0x00]), sz_file_name_len = 3, sz_line_no = 10,
          sz_msg = ''[ext] 5 items'', sz_msg_len = 13, sz_category = Null,
          sz_category_len = 0, sz_fields = 0\<rparr>])"
proof -
  have o: "owner_thread \<lparr>attached_instance_name = ''ext'', owner_thread = 7, is_closed = False\<rparr> = 7"
    by simp
  have f: "c_format ''%d items'' [Arg_int 5] = Some ''5 items''"
    by code_simp
  from o f formatted_requires_c_strings [where func_name = Null
      and file_name = "Ptr (''a.c'' @ [CHR 0x00])"
      and self = "Some \<lparr>attached_instance_name = ''ext'', owner_thread = 7, is_closed = False\<rparr>"
      and env = "\<lparr>attached_instance_name = ''ext'', owner_thread = 7, is_closed = False\<rparr>"
      and level = 3 and line_no = 10 and category = Null and category_len = 0 and flds = 0
      and fmt = "''%d items''" and ap = "[Arg_int 5]" and cur = 7 and tr = "[]"
      and body = "''5 items''" and ?n1.0 = 0 and ?n2.0 = 3]
  show ?thesis
    by simp
qed

end
